theory Spec2Isabelle
  imports Main "HOL-Library.Word"
begin

section \<open>Table mutations of the restaurant GraphQL API\<close>

text \<open>
  The six resolvers of \<^verbatim>\<open>graphql/schema/Table/mutations.ts\<close> (addTable, editTable,
  deleteTable, toggleTableReservation, addOrderToTable, movePositionTable) as functions
  that take the request context, the arguments and the database, and return the thrown
  error or the resolved record together with the database after the call.
\<close>

subsection \<open>Values\<close>

text \<open>
  A GraphQL argument that is not required reaches the resolver in one of three shapes:
  the key is missing (\<^verbatim>\<open>undefined\<close>), it is an explicit \<^verbatim>\<open>null\<close>, or it holds a value.
\<close>

datatype 'a arg = Undefined | Null | Val 'a

text \<open>
  The nullish coalescing operator \<^verbatim>\<open>a ?? d\<close>: the left operand unless it is
  \<^verbatim>\<open>null\<close> or \<^verbatim>\<open>undefined\<close>. \<open>nullish_or\<close> is the form with a value on the right
  (\<^verbatim>\<open>args.reserved ?? false\<close>), \<open>nullish_or_undefined\<close> the form
  \<^verbatim>\<open>args.diners ?? undefined\<close>, whose result is a value or \<^verbatim>\<open>undefined\<close> (\<open>None\<close>).
\<close>

fun nullish_or :: "'a arg \<Rightarrow> 'a \<Rightarrow> 'a" where
  "nullish_or (Val v) d = v"
| "nullish_or Null d = d"
| "nullish_or Undefined d = d"

fun nullish_or_undefined :: "'a arg \<Rightarrow> 'a option" where
  "nullish_or_undefined (Val v) = Some v"
| "nullish_or_undefined Null = None"
| "nullish_or_undefined Undefined = None"

text \<open>
  The GraphQL Int scalar (\<^verbatim>\<open>tableNumber\<close>, \<^verbatim>\<open>diners\<close>) is \<open>int\<close>: the resolvers compare and
  copy it and never compute with it.
\<close>

text \<open>The JSON scalar (\<^verbatim>\<open>position\<close>, \<^verbatim>\<open>cart\<close>): carried by the resolvers, never inspected.\<close>

datatype json =
    JNull
  | JBool bool
  | JNumber int
  | JString string
  | JArray "json list"
  | JObject "(string \<times> json) list"

text \<open>
  The GraphQL Float scalar (\<^verbatim>\<open>serviceFee\<close>, \<^verbatim>\<open>discount\<close>, \<^verbatim>\<open>total\<close>) is a 64-bit
  IEEE number; the resolvers only copy it, so it is kept as its bit pattern.
\<close>

type_synonym float = "64 word"

subsection \<open>Roles and the request context\<close>

text \<open>The Role enum of \<^verbatim>\<open>graphql/schema/User/enum.ts\<close>, with the strings it is compared as.\<close>

datatype role = USER | ADMIN | DELIVERY | WAITER | CHEF | MANAGER

fun role_name :: "role \<Rightarrow> string" where
  "role_name USER = ''USER''"
| "role_name ADMIN = ''ADMIN''"
| "role_name DELIVERY = ''DELIVERY''"
| "role_name WAITER = ''WAITER''"
| "role_name CHEF = ''CHEF''"
| "role_name MANAGER = ''MANAGER''"

text \<open>
  The session user; the resolvers read nothing but its role, and guard against a role that
  is missing (\<^verbatim>\<open>context.user?.role ?? ""\<close>).
\<close>

record user =
  role :: "role option"

record request_context =
  user :: "user option"

text \<open>\<^verbatim>\<open>context.user?.role ?? ""\<close> for a user that is present.\<close>

definition role_or_empty :: "user \<Rightarrow> string" where
  "role_or_empty u = (case role u of None \<Rightarrow> '''' | Some r \<Rightarrow> role_name r)"

subsection \<open>Errors\<close>

text \<open>
  A resolver fails by throwing. \<open>GraphQLError\<close> is the error the resolvers throw
  themselves, with its message: "You must be logged in to perform this action" is what
  the spec calls Unauthenticated, "You are not authorized ..." Forbidden, "A table with
  this tableNumber already exists" Conflict, "Table not found" NotFound.
  \<open>RecordNotFound\<close> and \<open>UniqueConstraintViolation\<close> are the failures of the
  persistence client (the not-found indication and the violated uniqueness constraint of
  the spec); no resolver catches them, so they leave the resolver as they are.
\<close>

datatype error =
    GraphQLError string
  | RecordNotFound
  | UniqueConstraintViolation

subsection \<open>Records of the database and arguments of the resolvers\<close>

record addTable_args =
  tableNumber :: int
  diners :: int
  position :: "json arg"
  areaId :: string
  reserved :: "bool arg"
  specialRequests :: "string list arg"

record editTable_args =
  id' :: string
  tableNumber :: "int arg"
  diners :: "int arg"
  reserved :: "bool arg"
  position :: "json arg"
  specialRequests :: "string list arg"
  areaId :: "string arg"

record deleteTable_args =
  id' :: string

record toggleTableReservation_args =
  id' :: string
  reserved :: bool

record addOrderToTable_args =
  tableId :: string
  orderNumber :: string
  cart :: json
  userName :: string
  userEmail :: string
  serviceFee :: float
  note' :: "string arg"
  discount :: "float arg"
  total :: float
  paymentToken :: "string arg"

record movePositionTable_args =
  tableNumber :: int
  position :: json

text \<open>The \<^verbatim>\<open>data\<close> objects the resolvers hand to the persistence client.\<close>

record table_create_input =
  tableNumber :: int
  diners :: int
  position :: "json arg"
  areaId :: string
  reserved :: bool
  specialRequests :: "string list"

text \<open>In an update, a field that is \<^verbatim>\<open>undefined\<close> (\<open>None\<close>) is not part of the update.\<close>

record table_update_input =
  tableNumber :: "int option"
  diners :: "int option"
  reserved :: "bool option"
  position :: "json option"
  specialRequests :: "string list option"
  areaId :: "string option"

record order_create_input =
  orderNumber :: string
  cart :: json
  userName :: string
  userEmail :: string
  tableId :: string
  status :: string
  serviceFee :: float
  note' :: "string option"
  discount :: "float option"
  total :: float
  paymentToken :: "string option"

text \<open>
  Modelled from the spec: the stored records. The database schema is not part of the
  source; a Table and an Order hold the fields of the spec's data model and an id. A
  Table without a position has \<open>None\<close> there.
\<close>

record table =
  id' :: string
  tableNumber :: int
  diners :: int
  position :: "json option"
  areaId :: string
  reserved :: bool
  specialRequests :: "string list"

record order =
  id' :: string
  orderNumber :: string
  cart :: json
  userName :: string
  userEmail :: string
  tableId :: string
  status :: string
  serviceFee :: float
  note' :: "string option"
  discount :: "float option"
  total :: float
  paymentToken :: "string option"

record db =
  tables :: "table list"
  orders :: "order list"

subsection \<open>The persistence client\<close>

text \<open>
  Modelled from the spec: the persistence client (\<^verbatim>\<open>prisma.table\<close>, \<^verbatim>\<open>prisma.order\<close>) and
  the database schema are not part of the source. The spec describes the client as
  create, read, update and delete operations keyed by id or by the unique field
  tableNumber, returning the full record or a not-found indication, and supporting a
  uniqueness constraint on Table.tableNumber. The stored records hold the fields of the
  spec's data model. Areas are not stored here, and neither the reference from a Table to
  its Area nor the reference from an Order to its Table is checked by the client. The
  identifier of a new record is chosen by the database; it is the parameter \<open>newId\<close>.
\<close>

datatype table_where = WhereId string | WhereTableNumber int

fun matches :: "table_where \<Rightarrow> table \<Rightarrow> bool" where
  "matches (WhereId i) t = (table.id' t = i)"
| "matches (WhereTableNumber n) t = (table.tableNumber t = n)"

text \<open>Modelled from the spec: a read returns the first record that matches, or nothing.\<close>

definition table_findFirst :: "table_where \<Rightarrow> db \<Rightarrow> table option" where
  "table_findFirst w d = find (matches w) (tables d)"

definition table_findUnique :: "table_where \<Rightarrow> db \<Rightarrow> table option" where
  "table_findUnique w d = find (matches w) (tables d)"

text \<open>
  Modelled from the spec: create stores a new Table, unless a stored Table has the same
  tableNumber (the uniqueness constraint). A position that is not given is stored as absent.
\<close>

definition table_create :: "string \<Rightarrow> table_create_input \<Rightarrow> db \<Rightarrow> (error + table) \<times> db" where
  "table_create newId data d =
     (case find (matches (WhereTableNumber (table_create_input.tableNumber data))) (tables d) of
        Some other \<Rightarrow> (Inl UniqueConstraintViolation, d)
      | None \<Rightarrow>
          (let t = \<lparr> table.id' = newId,
                     table.tableNumber = table_create_input.tableNumber data,
                     table.diners = table_create_input.diners data,
                     table.position = nullish_or_undefined (table_create_input.position data),
                     table.areaId = table_create_input.areaId data,
                     table.reserved = table_create_input.reserved data,
                     table.specialRequests = table_create_input.specialRequests data \<rparr>
           in (Inr t, d\<lparr>tables := tables d @ [t]\<rparr>)))"

text \<open>Modelled from the spec: an update applies only the fields that are provided.\<close>

definition or_else :: "'a option \<Rightarrow> 'a \<Rightarrow> 'a" where
  "or_else x old = (case x of None \<Rightarrow> old | Some v \<Rightarrow> v)"

definition apply_update :: "table_update_input \<Rightarrow> table \<Rightarrow> table" where
  "apply_update data t =
     \<lparr> table.id' = table.id' t,
       table.tableNumber = or_else (table_update_input.tableNumber data) (table.tableNumber t),
       table.diners = or_else (table_update_input.diners data) (table.diners t),
       table.position = (case table_update_input.position data of
                           None \<Rightarrow> table.position t | Some p \<Rightarrow> Some p),
       table.areaId = or_else (table_update_input.areaId data) (table.areaId t),
       table.reserved = or_else (table_update_input.reserved data) (table.reserved t),
       table.specialRequests =
         or_else (table_update_input.specialRequests data) (table.specialRequests t) \<rparr>"

fun replace_first :: "('a \<Rightarrow> bool) \<Rightarrow> 'a \<Rightarrow> 'a list \<Rightarrow> 'a list" where
  "replace_first P y [] = []"
| "replace_first P y (x # xs) = (if P x then y # xs else x # replace_first P y xs)"

fun remove_first :: "('a \<Rightarrow> bool) \<Rightarrow> 'a list \<Rightarrow> 'a list" where
  "remove_first P [] = []"
| "remove_first P (x # xs) = (if P x then xs else x # remove_first P xs)"

text \<open>
  Modelled from the spec: update fails with the not-found indication when no record
  matches; it fails on the uniqueness constraint when it would give the record a
  tableNumber that a stored Table already has; otherwise it replaces the record and
  returns it.
\<close>

definition table_update ::
  "table_where \<Rightarrow> table_update_input \<Rightarrow> db \<Rightarrow> (error + table) \<times> db" where
  "table_update w data d =
     (case find (matches w) (tables d) of
        None \<Rightarrow> (Inl RecordNotFound, d)
      | Some t \<Rightarrow>
          (let t' = apply_update data t in
           if table.tableNumber t' \<noteq> table.tableNumber t
              \<and> find (matches (WhereTableNumber (table.tableNumber t'))) (tables d) \<noteq> None
           then (Inl UniqueConstraintViolation, d)
           else (Inr t', d\<lparr>tables := replace_first (matches w) t' (tables d)\<rparr>)))"

text \<open>
  Modelled from the spec: delete fails with the not-found indication when no record
  matches; otherwise it removes the record and returns it. The spec defines no policy for
  the Orders of a deleted Table; they stay as they are.
\<close>

definition table_delete :: "table_where \<Rightarrow> db \<Rightarrow> (error + table) \<times> db" where
  "table_delete w d =
     (case find (matches w) (tables d) of
        None \<Rightarrow> (Inl RecordNotFound, d)
      | Some t \<Rightarrow> (Inr t, d\<lparr>tables := remove_first (matches w) (tables d)\<rparr>))"

text \<open>
  Modelled from the spec: create stores a new Order. The spec's data model puts no
  uniqueness constraint on orderNumber.
\<close>

definition order_create :: "string \<Rightarrow> order_create_input \<Rightarrow> db \<Rightarrow> (error + order) \<times> db" where
  "order_create newId data d =
     (let ord = \<lparr> order.id' = newId,
                  order.orderNumber = order_create_input.orderNumber data,
                  order.cart = order_create_input.cart data,
                  order.userName = order_create_input.userName data,
                  order.userEmail = order_create_input.userEmail data,
                  order.tableId = order_create_input.tableId data,
                  order.status = order_create_input.status data,
                  order.serviceFee = order_create_input.serviceFee data,
                  order.note' = order_create_input.note' data,
                  order.discount = order_create_input.discount data,
                  order.total = order_create_input.total data,
                  order.paymentToken = order_create_input.paymentToken data \<rparr>
      in (Inr ord, d\<lparr>orders := orders d @ [ord]\<rparr>))"

subsection \<open>The resolvers\<close>

text \<open>
  Each resolver awaits the context, checks the user and the role, and then calls the
  persistence client; an error thrown on the way ends the call. The \<^verbatim>\<open>query\<close> argument
  (the selection that is spread into some client calls) and \<^verbatim>\<open>_parent\<close> decide neither
  what is stored nor which record is returned, and are left out. The resolvers that
  create a record take the identifier the database assigns as \<open>newId\<close>.
\<close>

definition addTable :: "string \<Rightarrow> request_context \<Rightarrow> addTable_args \<Rightarrow> db \<Rightarrow> (error + table) \<times> db" where
  "addTable newId ctx args d =
     (case user ctx of
        None \<Rightarrow> (Inl (GraphQLError ''You must be logged in to perform this action''), d)
      | Some u \<Rightarrow>
          if role_or_empty u \<notin> set [''ADMIN'', ''MANAGER'']
          then (Inl (GraphQLError ''You are not authorized to add tables''), d)
          else
            (case table_findFirst (WhereTableNumber (addTable_args.tableNumber args)) d of
               Some existing \<Rightarrow>
                 (Inl (GraphQLError ''A table with this tableNumber already exists''), d)
             | None \<Rightarrow>
                 table_create newId
                   \<lparr> table_create_input.tableNumber = addTable_args.tableNumber args,
                     table_create_input.diners = addTable_args.diners args,
                     table_create_input.position = addTable_args.position args,
                     table_create_input.areaId = addTable_args.areaId args,
                     table_create_input.reserved = nullish_or (addTable_args.reserved args) False,
                     table_create_input.specialRequests =
                       nullish_or (addTable_args.specialRequests args) [] \<rparr>
                   d))"

definition editTable :: "request_context \<Rightarrow> editTable_args \<Rightarrow> db \<Rightarrow> (error + table) \<times> db" where
  "editTable ctx args d =
     (case user ctx of
        None \<Rightarrow> (Inl (GraphQLError ''You must be logged in to perform this action''), d)
      | Some u \<Rightarrow>
          if role u \<noteq> Some ADMIN
          then (Inl (GraphQLError ''You are not authorized to edit tables''), d)
          else
            table_update (WhereId (editTable_args.id' args))
              \<lparr> table_update_input.tableNumber =
                  nullish_or_undefined (editTable_args.tableNumber args),
                table_update_input.diners = nullish_or_undefined (editTable_args.diners args),
                table_update_input.reserved =
                  nullish_or_undefined (editTable_args.reserved args),
                table_update_input.position =
                  nullish_or_undefined (editTable_args.position args),
                table_update_input.specialRequests =
                  nullish_or_undefined (editTable_args.specialRequests args),
                table_update_input.areaId = nullish_or_undefined (editTable_args.areaId args) \<rparr>
              d)"

definition deleteTable :: "request_context \<Rightarrow> deleteTable_args \<Rightarrow> db \<Rightarrow> (error + table) \<times> db" where
  "deleteTable ctx args d =
     (case user ctx of
        None \<Rightarrow> (Inl (GraphQLError ''You must be logged in to perform this action''), d)
      | Some u \<Rightarrow>
          if role u \<noteq> Some ADMIN
          then (Inl (GraphQLError ''You are not authorized to delete tables''), d)
          else table_delete (WhereId (deleteTable_args.id' args)) d)"

text \<open>An update \<^verbatim>\<open>data\<close> object with no field.\<close>

definition no_fields :: table_update_input where
  "no_fields =
     \<lparr> table_update_input.tableNumber = None, table_update_input.diners = None,
       table_update_input.reserved = None, table_update_input.position = None,
       table_update_input.specialRequests = None, table_update_input.areaId = None \<rparr>"

definition toggleTableReservation ::
  "request_context \<Rightarrow> toggleTableReservation_args \<Rightarrow> db \<Rightarrow> (error + table) \<times> db" where
  "toggleTableReservation ctx args d =
     (case user ctx of
        None \<Rightarrow> (Inl (GraphQLError ''You must be logged in to perform this action''), d)
      | Some u \<Rightarrow>
          if role u \<noteq> Some ADMIN
          then (Inl (GraphQLError ''You are not authorized to modify reservation status''), d)
          else
            (case table_findUnique (WhereId (toggleTableReservation_args.id' args)) d of
               None \<Rightarrow> (Inl (GraphQLError ''Table not found''), d)
             | Some t \<Rightarrow>
                 table_update (WhereId (toggleTableReservation_args.id' args))
                   (no_fields\<lparr>table_update_input.reserved :=
                                 Some (toggleTableReservation_args.reserved args)\<rparr>)
                   d))"

definition addOrderToTable ::
  "string \<Rightarrow> request_context \<Rightarrow> addOrderToTable_args \<Rightarrow> db \<Rightarrow> (error + order) \<times> db" where
  "addOrderToTable newId ctx args d =
     (case user ctx of
        None \<Rightarrow> (Inl (GraphQLError ''You must be logged in to perform this action''), d)
      | Some u \<Rightarrow>
          if role_or_empty u \<notin> set [''ADMIN'', ''MANAGER'', ''WAITER'']
          then (Inl (GraphQLError ''You are not authorized to add an order to a table''), d)
          else
            (case table_findUnique (WhereId (addOrderToTable_args.tableId args)) d of
               None \<Rightarrow> (Inl (GraphQLError ''Table not found''), d)
             | Some t \<Rightarrow>
                 order_create newId
                   \<lparr> order_create_input.orderNumber = addOrderToTable_args.orderNumber args,
                     order_create_input.cart = addOrderToTable_args.cart args,
                     order_create_input.userName = addOrderToTable_args.userName args,
                     order_create_input.userEmail = addOrderToTable_args.userEmail args,
                     order_create_input.tableId = addOrderToTable_args.tableId args,
                     order_create_input.status = ''PREPARING'',
                     order_create_input.serviceFee = addOrderToTable_args.serviceFee args,
                     order_create_input.note' =
                       nullish_or_undefined (addOrderToTable_args.note' args),
                     order_create_input.discount =
                       nullish_or_undefined (addOrderToTable_args.discount args),
                     order_create_input.total = addOrderToTable_args.total args,
                     order_create_input.paymentToken =
                       nullish_or_undefined (addOrderToTable_args.paymentToken args) \<rparr>
                   d))"

text \<open>
  The message of movePositionTable's not-found error holds the table number in decimal
  (a template literal).
\<close>

fun digits :: "nat \<Rightarrow> string" where
  "digits n =
     (if n < 10 then [char_of (48 + n)] else digits (n div 10) @ [char_of (48 + n mod 10)])"

definition int_to_string :: "int \<Rightarrow> string" where
  "int_to_string i = (if i < 0 then ''-'' @ digits (nat (- i)) else digits (nat i))"

definition movePositionTable ::
  "request_context \<Rightarrow> movePositionTable_args \<Rightarrow> db \<Rightarrow> (error + table) \<times> db" where
  "movePositionTable ctx args d =
     (case user ctx of
        None \<Rightarrow> (Inl (GraphQLError ''You must be logged in to perform this action''), d)
      | Some u \<Rightarrow>
          if role_or_empty u \<notin> set [''ADMIN'', ''MANAGER'']
          then (Inl (GraphQLError ''You are not authorized to move the table''), d)
          else
            (case table_findUnique (WhereTableNumber (movePositionTable_args.tableNumber args)) d of
               None \<Rightarrow>
                 (Inl (GraphQLError
                    (''Table with tableNumber='' @
                       int_to_string (movePositionTable_args.tableNumber args) @ '' not found'')), d)
             | Some t \<Rightarrow>
                 table_update (WhereTableNumber (movePositionTable_args.tableNumber args))
                   (no_fields\<lparr>table_update_input.position :=
                                 Some (movePositionTable_args.position args)\<rparr>)
                   d))"

subsection \<open>addTable between its awaits\<close>

text \<open>
  addTable awaits the persistence client twice, first \<^verbatim>\<open>findFirst\<close> and then \<^verbatim>\<open>create\<close>,
  with no transaction around the two; another request can be served in between.
  \<open>addTable_check\<close> is the resolver up to the throw that follows \<^verbatim>\<open>findFirst\<close> (\<open>None\<close>
  when nothing is thrown), \<open>addTable_create\<close> is the rest.
\<close>

definition addTable_check :: "request_context \<Rightarrow> addTable_args \<Rightarrow> db \<Rightarrow> error option" where
  "addTable_check ctx args d =
     (case user ctx of
        None \<Rightarrow> Some (GraphQLError ''You must be logged in to perform this action'')
      | Some u \<Rightarrow>
          if role_or_empty u \<notin> set [''ADMIN'', ''MANAGER'']
          then Some (GraphQLError ''You are not authorized to add tables'')
          else
            (case table_findFirst (WhereTableNumber (addTable_args.tableNumber args)) d of
               Some existing \<Rightarrow>
                 Some (GraphQLError ''A table with this tableNumber already exists'')
             | None \<Rightarrow> None))"

definition addTable_create :: "string \<Rightarrow> addTable_args \<Rightarrow> db \<Rightarrow> (error + table) \<times> db" where
  "addTable_create newId args d =
     table_create newId
       \<lparr> table_create_input.tableNumber = addTable_args.tableNumber args,
         table_create_input.diners = addTable_args.diners args,
         table_create_input.position = addTable_args.position args,
         table_create_input.areaId = addTable_args.areaId args,
         table_create_input.reserved = nullish_or (addTable_args.reserved args) False,
         table_create_input.specialRequests =
           nullish_or (addTable_args.specialRequests args) [] \<rparr>
       d"






subsection \<open>Notions used in the statements\<close>

text \<open>An argument with an explicit \<^verbatim>\<open>null\<close> replaced by an omitted one.\<close>

fun null_as_omitted :: "'a arg \<Rightarrow> 'a arg" where
  "null_as_omitted Null = Undefined"
| "null_as_omitted Undefined = Undefined"
| "null_as_omitted (Val v) = Val v"

text \<open>A small database and some callers, for evaluating the resolvers on concrete input.\<close>

definition table_seven :: table where
  "table_seven =
     \<lparr> table.id' = ''t1'', table.tableNumber = 7, table.diners = 4,
       table.position = Some (JObject [(''x'', JNumber 10), (''y'', JNumber 20)]),
       table.areaId = ''a1'', table.reserved = False,
       table.specialRequests = [''window''] \<rparr>"

definition order_a1 :: order where
  "order_a1 =
     \<lparr> order.id' = ''o1'', order.orderNumber = ''A-1'',
       order.cart = JArray [JObject [(''menuId'', JString ''m1''), (''qty'', JNumber 2)]],
       order.userName = ''Guest'', order.userEmail = ''guest@local'', order.tableId = ''t1'',
       order.status = ''PREPARING'', order.serviceFee = 0, order.note' = None,
       order.discount = None, order.total = 0, order.paymentToken = None \<rparr>"

definition small_db :: db where
  "small_db = \<lparr> tables = [table_seven], orders = [order_a1] \<rparr>"

definition admin :: request_context where
  "admin = \<lparr> user = Some \<lparr> role = Some ADMIN \<rparr> \<rparr>"

definition chef :: request_context where
  "chef = \<lparr> user = Some \<lparr> role = Some CHEF \<rparr> \<rparr>"

definition waiter :: request_context where
  "waiter = \<lparr> user = Some \<lparr> role = Some WAITER \<rparr> \<rparr>"

definition table_args :: "int \<Rightarrow> addTable_args" where
  "table_args n =
     \<lparr> addTable_args.tableNumber = n, addTable_args.diners = 2,
       addTable_args.position = Undefined, addTable_args.areaId = ''a1'',
       addTable_args.reserved = Undefined, addTable_args.specialRequests = Undefined \<rparr>"

definition edit_args :: "string \<Rightarrow> editTable_args" where
  "edit_args i =
     \<lparr> editTable_args.id' = i, editTable_args.tableNumber = Null,
       editTable_args.diners = Val 6, editTable_args.reserved = Null,
       editTable_args.position = Null, editTable_args.specialRequests = Null,
       editTable_args.areaId = Null \<rparr>"

definition order_args :: "string \<Rightarrow> addOrderToTable_args" where
  "order_args i =
     \<lparr> addOrderToTable_args.tableId = i, addOrderToTable_args.orderNumber = ''A-1'',
       addOrderToTable_args.cart = JArray [],
       addOrderToTable_args.userName = ''Guest'',
       addOrderToTable_args.userEmail = ''guest@local'',
       addOrderToTable_args.serviceFee = 0, addOrderToTable_args.note' = Undefined,
       addOrderToTable_args.discount = Null, addOrderToTable_args.total = 0,
       addOrderToTable_args.paymentToken = Undefined \<rparr>"

definition move_args :: movePositionTable_args where
  "move_args =
     \<lparr> movePositionTable_args.tableNumber = 7,
       movePositionTable_args.position = JObject [(''x'', JNumber 1), (''y'', JNumber 2)] \<rparr>"

definition table_eight :: table where
  "table_eight =
     \<lparr> table.id' = ''t2'', table.tableNumber = 8, table.diners = 2,
       table.position = None, table.areaId = ''a1'', table.reserved = False,
       table.specialRequests = [] \<rparr>"

definition order_a1_again :: order where
  "order_a1_again =
     \<lparr> order.id' = ''o2'', order.orderNumber = ''A-1'', order.cart = JArray [],
       order.userName = ''Guest'', order.userEmail = ''guest@local'', order.tableId = ''t1'',
       order.status = ''PREPARING'', order.serviceFee = 0, order.note' = None,
       order.discount = None, order.total = 0, order.paymentToken = None \<rparr>"

lemmas example_defs =
  table_seven_def order_a1_def small_db_def admin_def chef_def waiter_def
  table_args_def edit_args_def order_args_def move_args_def

lemmas resolver_defs =
  addTable_def editTable_def deleteTable_def toggleTableReservation_def
  addOrderToTable_def movePositionTable_def

lemmas client_defs =
  table_findFirst_def table_findUnique_def table_create_def table_update_def
  table_delete_def order_create_def apply_update_def or_else_def no_fields_def
  role_or_empty_def

section \<open>Properties\<close>

declare digits.simps [simp del]

subsection \<open>Lists of records\<close>

lemma find_none_iff_no_match: "find P xs = None \<longleftrightarrow> (\<forall>x\<in>set xs. \<not> P x)"
  by (induction xs) auto

lemma found_matches: "find P xs = Some t \<Longrightarrow> P t"
  by (induction xs) (auto split: if_splits)

lemma find_replace_first:
  "find P xs = Some t \<Longrightarrow> P y \<Longrightarrow> find P (replace_first P y xs) = Some y"
  by (induction xs) (auto split: if_splits)

lemma replace_first_twice:
  "P y \<Longrightarrow> replace_first P z (replace_first P y xs) = replace_first P z xs"
  by (induction xs) auto

subsection \<open>The role checks\<close>

lemma admin_or_manager:
  "role_or_empty u \<in> set [''ADMIN'', ''MANAGER'']
     \<longleftrightarrow> role u \<in> {Some ADMIN, Some MANAGER}"
proof (cases "role u")
  case None
  then show ?thesis by (simp add: role_or_empty_def)
next
  case (Some r)
  then show ?thesis by (cases r) (simp_all add: role_or_empty_def)
qed

lemma admin_manager_or_waiter:
  "role_or_empty u \<in> set [''ADMIN'', ''MANAGER'', ''WAITER'']
     \<longleftrightarrow> role u \<in> {Some ADMIN, Some MANAGER, Some WAITER}"
proof (cases "role u")
  case None
  then show ?thesis by (simp add: role_or_empty_def)
next
  case (Some r)
  then show ?thesis by (cases r) (simp_all add: role_or_empty_def)
qed

subsection \<open>The persistence client never throws a GraphQLError\<close>

lemma table_create_not_GraphQLError: "fst (table_create n i d) \<noteq> Inl (GraphQLError m)"
  by (simp add: table_create_def Let_def split: option.split)

lemma table_update_not_GraphQLError: "fst (table_update w i d) \<noteq> Inl (GraphQLError m)"
  by (simp add: table_update_def Let_def split: option.split)

lemma table_delete_not_GraphQLError: "fst (table_delete w d) \<noteq> Inl (GraphQLError m)"
  by (simp add: table_delete_def split: option.split)

lemma order_create_not_GraphQLError: "fst (order_create n i d) \<noteq> Inl (GraphQLError m)"
  by (simp add: order_create_def Let_def)

subsection \<open>Authentication\<close>

text \<open>
  Claim C2. Every one of the six operations, called with a context that holds no user,
  fails with the resolver's own error "You must be logged in to perform this action" (the
  spec's Unauthenticated), whatever the arguments. The database after the call is the
  database before it, so nothing was written; and the outcome is the same for every
  database, so nothing read from it had any effect.
\<close>

theorem unauthenticated_fails_untouched:
  "addTable newId \<lparr>user = None\<rparr> a1 d =
      (Inl (GraphQLError ''You must be logged in to perform this action''), d)
   \<and> editTable \<lparr>user = None\<rparr> a2 d =
      (Inl (GraphQLError ''You must be logged in to perform this action''), d)
   \<and> deleteTable \<lparr>user = None\<rparr> a3 d =
      (Inl (GraphQLError ''You must be logged in to perform this action''), d)
   \<and> toggleTableReservation \<lparr>user = None\<rparr> a4 d =
      (Inl (GraphQLError ''You must be logged in to perform this action''), d)
   \<and> addOrderToTable newId' \<lparr>user = None\<rparr> a5 d =
      (Inl (GraphQLError ''You must be logged in to perform this action''), d)
   \<and> movePositionTable \<lparr>user = None\<rparr> a6 d =
      (Inl (GraphQLError ''You must be logged in to perform this action''), d)"
  by (simp add: resolver_defs)

subsection \<open>Authorization\<close>

lemma addTable_forbidden:
  "role u \<notin> {Some ADMIN, Some MANAGER} \<Longrightarrow>
   addTable newId \<lparr>user = Some u\<rparr> a d =
     (Inl (GraphQLError ''You are not authorized to add tables''), d)"
  using admin_or_manager [of u] by (simp add: addTable_def)

lemma addTable_authorized:
  "role u \<in> {Some ADMIN, Some MANAGER} \<Longrightarrow>
   fst (addTable newId \<lparr>user = Some u\<rparr> a d) \<notin>
     {Inl (GraphQLError ''You must be logged in to perform this action''),
      Inl (GraphQLError ''You are not authorized to add tables'')}"
  using admin_or_manager [of u]
  by (simp add: addTable_def table_create_not_GraphQLError split: option.split)

lemma editTable_forbidden:
  "role u \<noteq> Some ADMIN \<Longrightarrow>
   editTable \<lparr>user = Some u\<rparr> a d =
     (Inl (GraphQLError ''You are not authorized to edit tables''), d)"
  by (simp add: editTable_def)

lemma editTable_authorized:
  "role u = Some ADMIN \<Longrightarrow>
   fst (editTable \<lparr>user = Some u\<rparr> a d) \<notin>
     {Inl (GraphQLError ''You must be logged in to perform this action''),
      Inl (GraphQLError ''You are not authorized to edit tables'')}"
  by (simp add: editTable_def table_update_not_GraphQLError)

lemma deleteTable_forbidden:
  "role u \<noteq> Some ADMIN \<Longrightarrow>
   deleteTable \<lparr>user = Some u\<rparr> a d =
     (Inl (GraphQLError ''You are not authorized to delete tables''), d)"
  by (simp add: deleteTable_def)

lemma deleteTable_authorized:
  "role u = Some ADMIN \<Longrightarrow>
   fst (deleteTable \<lparr>user = Some u\<rparr> a d) \<notin>
     {Inl (GraphQLError ''You must be logged in to perform this action''),
      Inl (GraphQLError ''You are not authorized to delete tables'')}"
  by (simp add: deleteTable_def table_delete_not_GraphQLError)

lemma toggleTableReservation_forbidden:
  "role u \<noteq> Some ADMIN \<Longrightarrow>
   toggleTableReservation \<lparr>user = Some u\<rparr> a d =
     (Inl (GraphQLError ''You are not authorized to modify reservation status''), d)"
  by (simp add: toggleTableReservation_def)

lemma toggleTableReservation_authorized:
  "role u = Some ADMIN \<Longrightarrow>
   fst (toggleTableReservation \<lparr>user = Some u\<rparr> a d) \<notin>
     {Inl (GraphQLError ''You must be logged in to perform this action''),
      Inl (GraphQLError ''You are not authorized to modify reservation status'')}"
  by (simp add: toggleTableReservation_def table_update_not_GraphQLError split: option.split)

lemma addOrderToTable_forbidden:
  "role u \<notin> {Some ADMIN, Some MANAGER, Some WAITER} \<Longrightarrow>
   addOrderToTable newId \<lparr>user = Some u\<rparr> a d =
     (Inl (GraphQLError ''You are not authorized to add an order to a table''), d)"
  using admin_manager_or_waiter [of u] by (simp add: addOrderToTable_def)

lemma addOrderToTable_authorized:
  "role u \<in> {Some ADMIN, Some MANAGER, Some WAITER} \<Longrightarrow>
   fst (addOrderToTable newId \<lparr>user = Some u\<rparr> a d) \<notin>
     {Inl (GraphQLError ''You must be logged in to perform this action''),
      Inl (GraphQLError ''You are not authorized to add an order to a table'')}"
  using admin_manager_or_waiter [of u]
  by (simp add: addOrderToTable_def order_create_not_GraphQLError split: option.split)

lemma movePositionTable_forbidden:
  "role u \<notin> {Some ADMIN, Some MANAGER} \<Longrightarrow>
   movePositionTable \<lparr>user = Some u\<rparr> a d =
     (Inl (GraphQLError ''You are not authorized to move the table''), d)"
  using admin_or_manager [of u] by (simp add: movePositionTable_def)

lemma movePositionTable_authorized:
  "role u \<in> {Some ADMIN, Some MANAGER} \<Longrightarrow>
   fst (movePositionTable \<lparr>user = Some u\<rparr> a d) \<notin>
     {Inl (GraphQLError ''You must be logged in to perform this action''),
      Inl (GraphQLError ''You are not authorized to move the table'')}"
  using admin_or_manager [of u]
  by (simp add: movePositionTable_def table_update_not_GraphQLError split: option.split)

text \<open>
  Claim C1. For each of the six operations and every user that is logged in: when the
  user's role (a missing role included) is outside the operation's allowed set, the call
  fails with the operation's "You are not authorized ..." error (the spec's Forbidden) and
  the database after the call is the database before it; when the role is in the set, the
  call fails neither with the login error nor with that authorization error, that is, it
  gets past both checks. The allowed sets are ADMIN, MANAGER for addTable and
  movePositionTable; ADMIN for editTable, deleteTable and toggleTableReservation; ADMIN,
  MANAGER, WAITER for addOrderToTable.
\<close>

theorem forbidden_outside_allowed_roles:
  "(role u \<notin> {Some ADMIN, Some MANAGER} \<longrightarrow>
      addTable newId \<lparr>user = Some u\<rparr> a1 d =
        (Inl (GraphQLError ''You are not authorized to add tables''), d))
   \<and> (role u \<in> {Some ADMIN, Some MANAGER} \<longrightarrow>
      fst (addTable newId \<lparr>user = Some u\<rparr> a1 d) \<notin>
        {Inl (GraphQLError ''You must be logged in to perform this action''),
         Inl (GraphQLError ''You are not authorized to add tables'')})
   \<and> (role u \<noteq> Some ADMIN \<longrightarrow>
      editTable \<lparr>user = Some u\<rparr> a2 d =
        (Inl (GraphQLError ''You are not authorized to edit tables''), d))
   \<and> (role u = Some ADMIN \<longrightarrow>
      fst (editTable \<lparr>user = Some u\<rparr> a2 d) \<notin>
        {Inl (GraphQLError ''You must be logged in to perform this action''),
         Inl (GraphQLError ''You are not authorized to edit tables'')})
   \<and> (role u \<noteq> Some ADMIN \<longrightarrow>
      deleteTable \<lparr>user = Some u\<rparr> a3 d =
        (Inl (GraphQLError ''You are not authorized to delete tables''), d))
   \<and> (role u = Some ADMIN \<longrightarrow>
      fst (deleteTable \<lparr>user = Some u\<rparr> a3 d) \<notin>
        {Inl (GraphQLError ''You must be logged in to perform this action''),
         Inl (GraphQLError ''You are not authorized to delete tables'')})
   \<and> (role u \<noteq> Some ADMIN \<longrightarrow>
      toggleTableReservation \<lparr>user = Some u\<rparr> a4 d =
        (Inl (GraphQLError ''You are not authorized to modify reservation status''), d))
   \<and> (role u = Some ADMIN \<longrightarrow>
      fst (toggleTableReservation \<lparr>user = Some u\<rparr> a4 d) \<notin>
        {Inl (GraphQLError ''You must be logged in to perform this action''),
         Inl (GraphQLError ''You are not authorized to modify reservation status'')})
   \<and> (role u \<notin> {Some ADMIN, Some MANAGER, Some WAITER} \<longrightarrow>
      addOrderToTable newId' \<lparr>user = Some u\<rparr> a5 d =
        (Inl (GraphQLError ''You are not authorized to add an order to a table''), d))
   \<and> (role u \<in> {Some ADMIN, Some MANAGER, Some WAITER} \<longrightarrow>
      fst (addOrderToTable newId' \<lparr>user = Some u\<rparr> a5 d) \<notin>
        {Inl (GraphQLError ''You must be logged in to perform this action''),
         Inl (GraphQLError ''You are not authorized to add an order to a table'')})
   \<and> (role u \<notin> {Some ADMIN, Some MANAGER} \<longrightarrow>
      movePositionTable \<lparr>user = Some u\<rparr> a6 d =
        (Inl (GraphQLError ''You are not authorized to move the table''), d))
   \<and> (role u \<in> {Some ADMIN, Some MANAGER} \<longrightarrow>
      fst (movePositionTable \<lparr>user = Some u\<rparr> a6 d) \<notin>
        {Inl (GraphQLError ''You must be logged in to perform this action''),
         Inl (GraphQLError ''You are not authorized to move the table'')})"
  by (intro conjI impI;
      (erule addTable_forbidden | erule addTable_authorized
       | erule editTable_forbidden | erule editTable_authorized
       | erule deleteTable_forbidden | erule deleteTable_authorized
       | erule toggleTableReservation_forbidden | erule toggleTableReservation_authorized
       | erule addOrderToTable_forbidden | erule addOrderToTable_authorized
       | erule movePositionTable_forbidden | erule movePositionTable_authorized))

text \<open>
  The chef is outside every allowed set, the admin is inside every one; the calls are
  evaluated on the small database.
\<close>

theorem forbidden_outside_allowed_roles_witness:
  "addTable ''t2'' chef (table_args 8) small_db =
     (Inl (GraphQLError ''You are not authorized to add tables''), small_db)
   \<and> editTable chef (edit_args ''t1'') small_db =
     (Inl (GraphQLError ''You are not authorized to edit tables''), small_db)
   \<and> deleteTable chef \<lparr>deleteTable_args.id' = ''t1''\<rparr> small_db =
     (Inl (GraphQLError ''You are not authorized to delete tables''), small_db)
   \<and> toggleTableReservation chef
       \<lparr>toggleTableReservation_args.id' = ''t1'', toggleTableReservation_args.reserved = True\<rparr>
       small_db =
     (Inl (GraphQLError ''You are not authorized to modify reservation status''), small_db)
   \<and> addOrderToTable ''o2'' chef (order_args ''t1'') small_db =
     (Inl (GraphQLError ''You are not authorized to add an order to a table''), small_db)
   \<and> movePositionTable chef move_args small_db =
     (Inl (GraphQLError ''You are not authorized to move the table''), small_db)
   \<and> fst (addTable ''t2'' admin (table_args 8) small_db) \<notin>
       {Inl (GraphQLError ''You must be logged in to perform this action''),
        Inl (GraphQLError ''You are not authorized to add tables'')}
   \<and> fst (editTable admin (edit_args ''t1'') small_db) \<notin>
       {Inl (GraphQLError ''You must be logged in to perform this action''),
        Inl (GraphQLError ''You are not authorized to edit tables'')}
   \<and> fst (deleteTable admin \<lparr>deleteTable_args.id' = ''t1''\<rparr> small_db) \<notin>
       {Inl (GraphQLError ''You must be logged in to perform this action''),
        Inl (GraphQLError ''You are not authorized to delete tables'')}
   \<and> fst (toggleTableReservation admin
       \<lparr>toggleTableReservation_args.id' = ''t1'', toggleTableReservation_args.reserved = True\<rparr>
       small_db) \<notin>
       {Inl (GraphQLError ''You must be logged in to perform this action''),
        Inl (GraphQLError ''You are not authorized to modify reservation status'')}
   \<and> fst (addOrderToTable ''o2'' admin (order_args ''t1'') small_db) \<notin>
       {Inl (GraphQLError ''You must be logged in to perform this action''),
        Inl (GraphQLError ''You are not authorized to add an order to a table'')}
   \<and> fst (movePositionTable admin move_args small_db) \<notin>
       {Inl (GraphQLError ''You must be logged in to perform this action''),
        Inl (GraphQLError ''You are not authorized to move the table'')}"
proof -
  note at_chef =
    forbidden_outside_allowed_roles [of "\<lparr>role = Some CHEF\<rparr>" "''t2''" "table_args 8"
      small_db "edit_args ''t1''" "\<lparr>deleteTable_args.id' = ''t1''\<rparr>"
      "\<lparr>toggleTableReservation_args.id' = ''t1'',
        toggleTableReservation_args.reserved = True\<rparr>"
      "''o2''" "order_args ''t1''" move_args, folded chef_def]
  note at_admin =
    forbidden_outside_allowed_roles [of "\<lparr>role = Some ADMIN\<rparr>" "''t2''" "table_args 8"
      small_db "edit_args ''t1''" "\<lparr>deleteTable_args.id' = ''t1''\<rparr>"
      "\<lparr>toggleTableReservation_args.id' = ''t1'',
        toggleTableReservation_args.reserved = True\<rparr>"
      "''o2''" "order_args ''t1''" move_args, folded admin_def]
  from at_chef at_admin show ?thesis
    by simp
qed

subsection \<open>addTable\<close>

text \<open>
  Claim C3. For every addTable call by an ADMIN or a MANAGER: if a stored Table has the
  given tableNumber, the call fails with the error "A table with this tableNumber already
  exists" (the spec's Conflict) and the database is unchanged; if none has it, the call
  returns a new Table and stores exactly that Table after the others. The new Table holds
  the given tableNumber, diners and areaId; its reserved field is the given value, and
  false when the argument is omitted or null; its specialRequests is the given list, and
  empty when the argument is omitted or null.
\<close>

theorem addTable_conflict_or_create:
  assumes "role u \<in> {Some ADMIN, Some MANAGER}"
  shows "((\<exists>t\<in>set (tables d). table.tableNumber t = addTable_args.tableNumber a) \<longrightarrow>
           addTable newId \<lparr>user = Some u\<rparr> a d =
             (Inl (GraphQLError ''A table with this tableNumber already exists''), d))
       \<and> ((\<forall>t\<in>set (tables d). table.tableNumber t \<noteq> addTable_args.tableNumber a) \<longrightarrow>
           (let new = \<lparr> table.id' = newId,
                         table.tableNumber = addTable_args.tableNumber a,
                         table.diners = addTable_args.diners a,
                         table.position =
                           (case addTable_args.position a of
                              Val p \<Rightarrow> Some p | Null \<Rightarrow> None | Undefined \<Rightarrow> None),
                         table.areaId = addTable_args.areaId a,
                         table.reserved =
                           (case addTable_args.reserved a of
                              Val b \<Rightarrow> b | Null \<Rightarrow> False | Undefined \<Rightarrow> False),
                         table.specialRequests =
                           (case addTable_args.specialRequests a of
                              Val s \<Rightarrow> s | Null \<Rightarrow> [] | Undefined \<Rightarrow> []) \<rparr>
            in addTable newId \<lparr>user = Some u\<rparr> a d = (Inr new, d\<lparr>tables := tables d @ [new]\<rparr>)))"
proof (intro conjI impI)
  assume "\<exists>t\<in>set (tables d). table.tableNumber t = addTable_args.tableNumber a"
  then have "find (matches (WhereTableNumber (addTable_args.tableNumber a))) (tables d) \<noteq> None"
    by (simp add: find_none_iff_no_match)
  then show "addTable newId \<lparr>user = Some u\<rparr> a d =
             (Inl (GraphQLError ''A table with this tableNumber already exists''), d)"
    using assms admin_or_manager [of u] by (auto simp add: addTable_def table_findFirst_def)
next
  assume "\<forall>t\<in>set (tables d). table.tableNumber t \<noteq> addTable_args.tableNumber a"
  then have none: "find (matches (WhereTableNumber (addTable_args.tableNumber a))) (tables d) = None"
    by (simp add: find_none_iff_no_match)
  have pos: "nullish_or_undefined (addTable_args.position a) =
      (case addTable_args.position a of Val p \<Rightarrow> Some p | Null \<Rightarrow> None | Undefined \<Rightarrow> None)"
    by (cases "addTable_args.position a") simp_all
  have res: "nullish_or (addTable_args.reserved a) False =
      (case addTable_args.reserved a of Val b \<Rightarrow> b | Null \<Rightarrow> False | Undefined \<Rightarrow> False)"
    by (cases "addTable_args.reserved a") simp_all
  have spe: "nullish_or (addTable_args.specialRequests a) [] =
      (case addTable_args.specialRequests a of Val s \<Rightarrow> s | Null \<Rightarrow> [] | Undefined \<Rightarrow> [])"
    by (cases "addTable_args.specialRequests a") simp_all
  show "let new = \<lparr> table.id' = newId,
                         table.tableNumber = addTable_args.tableNumber a,
                         table.diners = addTable_args.diners a,
                         table.position =
                           (case addTable_args.position a of
                              Val p \<Rightarrow> Some p | Null \<Rightarrow> None | Undefined \<Rightarrow> None),
                         table.areaId = addTable_args.areaId a,
                         table.reserved =
                           (case addTable_args.reserved a of
                              Val b \<Rightarrow> b | Null \<Rightarrow> False | Undefined \<Rightarrow> False),
                         table.specialRequests =
                           (case addTable_args.specialRequests a of
                              Val s \<Rightarrow> s | Null \<Rightarrow> [] | Undefined \<Rightarrow> []) \<rparr>
            in addTable newId \<lparr>user = Some u\<rparr> a d = (Inr new, d\<lparr>tables := tables d @ [new]\<rparr>)"
    using assms admin_or_manager [of u] none
    by (simp add: addTable_def table_findFirst_def table_create_def Let_def pos res spe)
qed

text \<open>
  On the small database, whose only Table has number 7: the admin's call with number 7
  is refused, the call with number 8 and neither reserved nor specialRequests stores
  \<open>table_eight\<close>.
\<close>

theorem addTable_conflict_or_create_witness:
  "role \<lparr>role = Some ADMIN\<rparr> \<in> {Some ADMIN, Some MANAGER}
   \<and> (\<exists>t\<in>set (tables small_db). table.tableNumber t = addTable_args.tableNumber (table_args 7))
   \<and> addTable ''t2'' admin (table_args 7) small_db =
       (Inl (GraphQLError ''A table with this tableNumber already exists''), small_db)
   \<and> addTable_args.tableNumber (table_args 8) \<notin> set (map table.tableNumber (tables small_db))
   \<and> addTable ''t2'' admin (table_args 8) small_db =
       (Inr table_eight, \<lparr> tables = [table_seven, table_eight], orders = [order_a1] \<rparr>)"
proof -
  have r: "role \<lparr>role = Some ADMIN\<rparr> \<in> {Some ADMIN, Some MANAGER}"
    by simp
  have taken: "\<exists>t\<in>set (tables small_db). table.tableNumber t = addTable_args.tableNumber (table_args 7)"
    by (simp add: example_defs)
  have free: "\<forall>t\<in>set (tables small_db). table.tableNumber t \<noteq> addTable_args.tableNumber (table_args 8)"
    by (simp add: example_defs)
  from taken addTable_conflict_or_create [OF r, of small_db "table_args 7" "''t2''"]
  have refused: "addTable ''t2'' admin (table_args 7) small_db =
       (Inl (GraphQLError ''A table with this tableNumber already exists''), small_db)"
    unfolding admin_def by blast
  from free addTable_conflict_or_create [OF r, of small_db "table_args 8" "''t2''"]
  have "addTable ''t2'' admin (table_args 8) small_db =
       (Inr table_eight, \<lparr> tables = [table_seven, table_eight], orders = [order_a1] \<rparr>)"
    by (simp add: example_defs table_eight_def Let_def)
  moreover have "addTable_args.tableNumber (table_args 8) \<notin> set (map table.tableNumber (tables small_db))"
    by (simp add: example_defs)
  ultimately show ?thesis
    using r taken refused by blast
qed

subsection \<open>editTable and deleteTable\<close>

text \<open>
  Claim C4. For every editTable or deleteTable call by an ADMIN whose id is the id of no
  stored Table, the call fails with the not-found error of the persistence client (the
  spec's NotFound), and the database after the call is the database before it: nothing
  is created, updated or deleted. The error is the client's own, raised by its update and
  delete operations; the resolvers do not look the record up themselves.
\<close>

theorem edit_delete_unknown_id_not_found:
  assumes "role u = Some ADMIN"
    and "\<forall>t\<in>set (tables d). table.id' t \<noteq> i"
  shows "editTable \<lparr>user = Some u\<rparr> (a\<lparr>editTable_args.id' := i\<rparr>) d = (Inl RecordNotFound, d)
       \<and> deleteTable \<lparr>user = Some u\<rparr> \<lparr>deleteTable_args.id' = i\<rparr> d = (Inl RecordNotFound, d)"
proof -
  from assms(2) have "find (matches (WhereId i)) (tables d) = None"
    by (simp add: find_none_iff_no_match)
  then show ?thesis
    using assms(1) by (simp add: editTable_def deleteTable_def table_update_def table_delete_def)
qed

theorem edit_delete_unknown_id_not_found_witness:
  "role \<lparr>role = Some ADMIN\<rparr> = Some ADMIN
   \<and> ''t9'' \<notin> set (map table.id' (tables small_db))
   \<and> editTable admin (edit_args ''t9'') small_db = (Inl RecordNotFound, small_db)
   \<and> deleteTable admin \<lparr>deleteTable_args.id' = ''t9''\<rparr> small_db = (Inl RecordNotFound, small_db)"
proof -
  have r: "role \<lparr>role = Some ADMIN\<rparr> = Some ADMIN"
    by simp
  have absent: "\<forall>t\<in>set (tables small_db). table.id' t \<noteq> ''t9''"
    by (simp add: example_defs)
  have same: "(edit_args ''t1'')\<lparr>editTable_args.id' := ''t9''\<rparr> = edit_args ''t9''"
    by (simp add: edit_args_def)
  have unknown: "''t9'' \<notin> set (map table.id' (tables small_db))"
    by (simp add: example_defs)
  from edit_delete_unknown_id_not_found [OF r absent, of "edit_args ''t1''"] r unknown
  show ?thesis
    unfolding admin_def same by simp
qed

text \<open>
  Claim C5. For every editTable call by an ADMIN on a stored Table that supplies the
  diners argument and omits every other optional argument, the call returns the stored
  record with the new diners value and every other field (id, tableNumber, position,
  reserved, specialRequests, areaId) as it was stored, and that record is what a lookup
  by the id finds afterwards.
\<close>

theorem editTable_only_diners:
  assumes "role u = Some ADMIN"
    and "table_findUnique (WhereId i) d = Some t"
  shows "editTable \<lparr>user = Some u\<rparr>
           \<lparr> editTable_args.id' = i, editTable_args.tableNumber = Undefined,
             editTable_args.diners = Val n, editTable_args.reserved = Undefined,
             editTable_args.position = Undefined, editTable_args.specialRequests = Undefined,
             editTable_args.areaId = Undefined \<rparr> d
         = (Inr (t\<lparr>table.diners := n\<rparr>),
            d\<lparr>tables := replace_first (matches (WhereId i)) (t\<lparr>table.diners := n\<rparr>) (tables d)\<rparr>)
       \<and> table_findUnique (WhereId i)
           (d\<lparr>tables := replace_first (matches (WhereId i)) (t\<lparr>table.diners := n\<rparr>) (tables d)\<rparr>)
         = Some (t\<lparr>table.diners := n\<rparr>)"
proof -
  from assms(2) have ft: "find (matches (WhereId i)) (tables d) = Some t"
    by (simp add: table_findUnique_def)
  then have idt: "table.id' t = i"
    using found_matches [of "matches (WhereId i)" "tables d" t] by simp
  have upd: "apply_update \<lparr> table_update_input.tableNumber = None,
      table_update_input.diners = Some n, table_update_input.reserved = None,
      table_update_input.position = None, table_update_input.specialRequests = None,
      table_update_input.areaId = None \<rparr> t = t\<lparr>table.diners := n\<rparr>"
    by (simp add: apply_update_def or_else_def)
  have run: "editTable \<lparr>user = Some u\<rparr>
           \<lparr> editTable_args.id' = i, editTable_args.tableNumber = Undefined,
             editTable_args.diners = Val n, editTable_args.reserved = Undefined,
             editTable_args.position = Undefined, editTable_args.specialRequests = Undefined,
             editTable_args.areaId = Undefined \<rparr> d
         = (Inr (t\<lparr>table.diners := n\<rparr>),
            d\<lparr>tables := replace_first (matches (WhereId i)) (t\<lparr>table.diners := n\<rparr>) (tables d)\<rparr>)"
    using assms(1) ft by (simp add: editTable_def table_update_def upd Let_def)
  have look: "table_findUnique (WhereId i)
           (d\<lparr>tables := replace_first (matches (WhereId i)) (t\<lparr>table.diners := n\<rparr>) (tables d)\<rparr>)
         = Some (t\<lparr>table.diners := n\<rparr>)"
    using find_replace_first [OF ft, of "t\<lparr>table.diners := n\<rparr>"] idt
    by (simp add: table_findUnique_def)
  from run look show ?thesis by simp
qed

theorem editTable_only_diners_witness:
  "role \<lparr>role = Some ADMIN\<rparr> = Some ADMIN
   \<and> table_findUnique (WhereId ''t1'') small_db = Some table_seven
   \<and> editTable admin
       \<lparr> editTable_args.id' = ''t1'', editTable_args.tableNumber = Undefined,
         editTable_args.diners = Val 6, editTable_args.reserved = Undefined,
         editTable_args.position = Undefined, editTable_args.specialRequests = Undefined,
         editTable_args.areaId = Undefined \<rparr> small_db
     = (Inr (table_seven\<lparr>table.diners := 6\<rparr>),
        \<lparr> tables = [table_seven\<lparr>table.diners := 6\<rparr>], orders = [order_a1] \<rparr>)"
proof -
  have r: "role \<lparr>role = Some ADMIN\<rparr> = Some ADMIN"
    by simp
  have stored: "table_findUnique (WhereId ''t1'') small_db = Some table_seven"
    by (simp add: table_findUnique_def small_db_def table_seven_def)
  have after: "small_db\<lparr>tables := replace_first (matches (WhereId ''t1''))
      (table_seven\<lparr>table.diners := 6\<rparr>) (tables small_db)\<rparr>
      = \<lparr> tables = [table_seven\<lparr>table.diners := 6\<rparr>], orders = [order_a1] \<rparr>"
    by (simp add: small_db_def table_seven_def)
  from editTable_only_diners [OF r stored, of 6] r stored
  show ?thesis
    unfolding admin_def after by simp
qed

subsection \<open>editTable: null and omitted arguments\<close>

lemma nullish_or_undefined_null_as_omitted:
  "nullish_or_undefined (null_as_omitted x) = nullish_or_undefined x"
  by (cases x) simp_all

lemma or_else_nullish_or_undefined:
  "or_else (nullish_or_undefined x) old = (case x of Val v \<Rightarrow> v | Null \<Rightarrow> old | Undefined \<Rightarrow> old)"
  by (cases x) (simp_all add: or_else_def)

text \<open>
  Claim C10. An editTable call in which an optional argument is null has the outcome of
  the call in which that argument is omitted, for every context and database. And for
  every input, when the call returns a record for a stored Table, each field of the
  returned record is the argument's value if one is supplied, and the stored value if the
  argument is null or omitted; the id is the stored one, and the returned record is the
  one a lookup by the id then finds. So a null clears no field.
\<close>

theorem editTable_null_as_omitted:
  "editTable ctx
      \<lparr> editTable_args.id' = editTable_args.id' a,
        editTable_args.tableNumber = null_as_omitted (editTable_args.tableNumber a),
        editTable_args.diners = null_as_omitted (editTable_args.diners a),
        editTable_args.reserved = null_as_omitted (editTable_args.reserved a),
        editTable_args.position = null_as_omitted (editTable_args.position a),
        editTable_args.specialRequests = null_as_omitted (editTable_args.specialRequests a),
        editTable_args.areaId = null_as_omitted (editTable_args.areaId a) \<rparr> d
     = editTable ctx a d
   \<and> (table_findUnique (WhereId (editTable_args.id' a)) d = Some t
        \<and> fst (editTable ctx a d) = Inr t' \<longrightarrow>
        table.id' t' = table.id' t
      \<and> table.tableNumber t' =
          (case editTable_args.tableNumber a of
             Val v \<Rightarrow> v | Null \<Rightarrow> table.tableNumber t | Undefined \<Rightarrow> table.tableNumber t)
      \<and> table.diners t' =
          (case editTable_args.diners a of
             Val v \<Rightarrow> v | Null \<Rightarrow> table.diners t | Undefined \<Rightarrow> table.diners t)
      \<and> table.reserved t' =
          (case editTable_args.reserved a of
             Val v \<Rightarrow> v | Null \<Rightarrow> table.reserved t | Undefined \<Rightarrow> table.reserved t)
      \<and> table.position t' =
          (case editTable_args.position a of
             Val v \<Rightarrow> Some v | Null \<Rightarrow> table.position t | Undefined \<Rightarrow> table.position t)
      \<and> table.specialRequests t' =
          (case editTable_args.specialRequests a of
             Val v \<Rightarrow> v | Null \<Rightarrow> table.specialRequests t
           | Undefined \<Rightarrow> table.specialRequests t)
      \<and> table.areaId t' =
          (case editTable_args.areaId a of
             Val v \<Rightarrow> v | Null \<Rightarrow> table.areaId t | Undefined \<Rightarrow> table.areaId t)
      \<and> table_findUnique (WhereId (editTable_args.id' a)) (snd (editTable ctx a d)) = Some t')"
proof (intro conjI impI)
  show "editTable ctx
      \<lparr> editTable_args.id' = editTable_args.id' a,
        editTable_args.tableNumber = null_as_omitted (editTable_args.tableNumber a),
        editTable_args.diners = null_as_omitted (editTable_args.diners a),
        editTable_args.reserved = null_as_omitted (editTable_args.reserved a),
        editTable_args.position = null_as_omitted (editTable_args.position a),
        editTable_args.specialRequests = null_as_omitted (editTable_args.specialRequests a),
        editTable_args.areaId = null_as_omitted (editTable_args.areaId a) \<rparr> d
     = editTable ctx a d"
    by (cases "user ctx") (simp_all add: editTable_def nullish_or_undefined_null_as_omitted)
next
  assume h: "table_findUnique (WhereId (editTable_args.id' a)) d = Some t
        \<and> fst (editTable ctx a d) = Inr t'"
  let ?data = "\<lparr> table_update_input.tableNumber =
                  nullish_or_undefined (editTable_args.tableNumber a),
                table_update_input.diners = nullish_or_undefined (editTable_args.diners a),
                table_update_input.reserved =
                  nullish_or_undefined (editTable_args.reserved a),
                table_update_input.position =
                  nullish_or_undefined (editTable_args.position a),
                table_update_input.specialRequests =
                  nullish_or_undefined (editTable_args.specialRequests a),
                table_update_input.areaId = nullish_or_undefined (editTable_args.areaId a) \<rparr>"
  let ?P = "matches (WhereId (editTable_args.id' a))"
  obtain d' where run: "editTable ctx a d = (Inr t', d')"
    using h by (cases "editTable ctx a d") simp
  from h have ft: "find ?P (tables d) = Some t"
    by (simp add: table_findUnique_def)
  from run have "table_update (WhereId (editTable_args.id' a)) ?data d = (Inr t', d')"
    by (auto simp add: editTable_def split: option.splits if_splits)
  with ft have t': "t' = apply_update ?data t"
    and d': "d' = d\<lparr>tables := replace_first ?P t' (tables d)\<rparr>"
    by (auto simp add: table_update_def Let_def split: if_splits)
  have "?P t'"
    using found_matches [OF ft] by (simp add: t' apply_update_def)
  then have look: "table_findUnique (WhereId (editTable_args.id' a)) d' = Some t'"
    using find_replace_first [OF ft, of t'] by (simp add: table_findUnique_def d')
  show "table.id' t' = table.id' t"
    by (simp add: t' apply_update_def)
  show "table.tableNumber t' =
          (case editTable_args.tableNumber a of
             Val v \<Rightarrow> v | Null \<Rightarrow> table.tableNumber t | Undefined \<Rightarrow> table.tableNumber t)"
    by (simp add: t' apply_update_def or_else_nullish_or_undefined)
  show "table.diners t' =
          (case editTable_args.diners a of
             Val v \<Rightarrow> v | Null \<Rightarrow> table.diners t | Undefined \<Rightarrow> table.diners t)"
    by (simp add: t' apply_update_def or_else_nullish_or_undefined)
  show "table.reserved t' =
          (case editTable_args.reserved a of
             Val v \<Rightarrow> v | Null \<Rightarrow> table.reserved t | Undefined \<Rightarrow> table.reserved t)"
    by (simp add: t' apply_update_def or_else_nullish_or_undefined)
  show "table.position t' =
          (case editTable_args.position a of
             Val v \<Rightarrow> Some v | Null \<Rightarrow> table.position t | Undefined \<Rightarrow> table.position t)"
    by (cases "editTable_args.position a") (simp_all add: t' apply_update_def)
  show "table.specialRequests t' =
          (case editTable_args.specialRequests a of
             Val v \<Rightarrow> v | Null \<Rightarrow> table.specialRequests t
           | Undefined \<Rightarrow> table.specialRequests t)"
    by (simp add: t' apply_update_def or_else_nullish_or_undefined)
  show "table.areaId t' =
          (case editTable_args.areaId a of
             Val v \<Rightarrow> v | Null \<Rightarrow> table.areaId t | Undefined \<Rightarrow> table.areaId t)"
    by (simp add: t' apply_update_def or_else_nullish_or_undefined)
  from look run show "table_findUnique (WhereId (editTable_args.id' a)) (snd (editTable ctx a d)) = Some t'"
    by simp
qed

text \<open>
  The admin's edit of Table ''t1'' with diners = 6 and null for every other argument,
  evaluated on the small database: the position, the special requests and the other
  fields stay.
\<close>

lemma admin_edits_with_nulls:
  "editTable admin (edit_args ''t1'') small_db =
     (Inr (table_seven\<lparr>table.diners := 6\<rparr>),
      \<lparr> tables = [table_seven\<lparr>table.diners := 6\<rparr>], orders = [order_a1] \<rparr>)"
  by (simp add: editTable_def client_defs example_defs Let_def)

theorem editTable_null_as_omitted_witness:
  "table_findUnique (WhereId (editTable_args.id' (edit_args ''t1''))) small_db = Some table_seven
   \<and> fst (editTable admin (edit_args ''t1'') small_db) = Inr (table_seven\<lparr>table.diners := 6\<rparr>)
   \<and> editTable admin
       \<lparr> editTable_args.id' = ''t1'', editTable_args.tableNumber = Undefined,
         editTable_args.diners = Val 6, editTable_args.reserved = Undefined,
         editTable_args.position = Undefined, editTable_args.specialRequests = Undefined,
         editTable_args.areaId = Undefined \<rparr> small_db
       = editTable admin (edit_args ''t1'') small_db
   \<and> table.position (table_seven\<lparr>table.diners := 6\<rparr>) = table.position table_seven
   \<and> table.specialRequests (table_seven\<lparr>table.diners := 6\<rparr>) = table.specialRequests table_seven
   \<and> table_findUnique (WhereId ''t1'') (snd (editTable admin (edit_args ''t1'') small_db))
       = Some (table_seven\<lparr>table.diners := 6\<rparr>)"
proof -
  have stored: "table_findUnique (WhereId (editTable_args.id' (edit_args ''t1''))) small_db
      = Some table_seven"
    by (simp add: table_findUnique_def example_defs)
  have run: "fst (editTable admin (edit_args ''t1'') small_db) = Inr (table_seven\<lparr>table.diners := 6\<rparr>)"
    by (simp add: admin_edits_with_nulls)
  note at_nulls = editTable_null_as_omitted [of admin "edit_args ''t1''" small_db table_seven
      "table_seven\<lparr>table.diners := 6\<rparr>"]
  from stored run at_nulls show ?thesis
    by (simp add: edit_args_def)
qed

subsection \<open>toggleTableReservation\<close>

lemma apply_update_reserved:
  "apply_update (no_fields\<lparr>table_update_input.reserved := Some r\<rparr>) t = t\<lparr>table.reserved := r\<rparr>"
  by (simp add: apply_update_def no_fields_def or_else_def)

lemma toggleTableReservation_found:
  assumes "role u = Some ADMIN"
    and "find (matches (WhereId i)) (tables d) = Some t"
  shows "toggleTableReservation \<lparr>user = Some u\<rparr>
           \<lparr>toggleTableReservation_args.id' = i, toggleTableReservation_args.reserved = r\<rparr> d =
    (Inr (t\<lparr>table.reserved := r\<rparr>),
     d\<lparr>tables := replace_first (matches (WhereId i)) (t\<lparr>table.reserved := r\<rparr>) (tables d)\<rparr>)"
  using assms
  by (simp add: toggleTableReservation_def table_findUnique_def table_update_def
      apply_update_reserved Let_def)

text \<open>
  Claim C7. For every stored Table \<open>t\<close> with id \<open>X\<close> and an ADMIN caller: the call with
  reserved = true succeeds, and the call with reserved = false on the database it leaves
  returns \<open>t\<close> with reserved = false and every other field as in \<open>t\<close>; that record is
  what a lookup by \<open>X\<close> then finds, and the database differs from the one before the
  first call in that record only. When no stored Table has the id, the call fails with
  the resolver's error "Table not found" (the spec's NotFound) and the database is
  unchanged.
\<close>

theorem toggle_reservation_round_trip:
  assumes "role u = Some ADMIN"
  shows "(table_findUnique (WhereId X) d = Some t \<longrightarrow>
      (let first = toggleTableReservation \<lparr>user = Some u\<rparr>
                     \<lparr>toggleTableReservation_args.id' = X,
                       toggleTableReservation_args.reserved = True\<rparr> d;
           second = toggleTableReservation \<lparr>user = Some u\<rparr>
                      \<lparr>toggleTableReservation_args.id' = X,
                        toggleTableReservation_args.reserved = False\<rparr> (snd first)
       in fst first = Inr (t\<lparr>table.reserved := True\<rparr>)
        \<and> fst second = Inr (t\<lparr>table.reserved := False\<rparr>)
        \<and> table_findUnique (WhereId X) (snd second) = Some (t\<lparr>table.reserved := False\<rparr>)
        \<and> snd second =
            d\<lparr>tables := replace_first (matches (WhereId X))
                           (t\<lparr>table.reserved := False\<rparr>) (tables d)\<rparr>))
   \<and> ((\<forall>t\<in>set (tables d). table.id' t \<noteq> X) \<longrightarrow>
        toggleTableReservation \<lparr>user = Some u\<rparr>
          \<lparr>toggleTableReservation_args.id' = X, toggleTableReservation_args.reserved = r\<rparr> d
          = (Inl (GraphQLError ''Table not found''), d))"
proof (intro conjI impI)
  assume f: "table_findUnique (WhereId X) d = Some t"
  let ?P = "matches (WhereId X)"
  let ?t1 = "t\<lparr>table.reserved := True\<rparr>"
  let ?t2 = "t\<lparr>table.reserved := False\<rparr>"
  let ?d1 = "d\<lparr>tables := replace_first ?P ?t1 (tables d)\<rparr>"
  let ?d2 = "d\<lparr>tables := replace_first ?P ?t2 (tables d)\<rparr>"
  from f have ft: "find ?P (tables d) = Some t"
    by (simp add: table_findUnique_def)
  then have idt: "table.id' t = X"
    using found_matches [of ?P "tables d" t] by simp
  have s1: "toggleTableReservation \<lparr>user = Some u\<rparr>
           \<lparr>toggleTableReservation_args.id' = X, toggleTableReservation_args.reserved = True\<rparr> d
           = (Inr ?t1, ?d1)"
    by (rule toggleTableReservation_found [OF assms ft])
  have f1: "find ?P (tables ?d1) = Some ?t1"
    using find_replace_first [OF ft, of ?t1] idt by simp
  have "toggleTableReservation \<lparr>user = Some u\<rparr>
           \<lparr>toggleTableReservation_args.id' = X, toggleTableReservation_args.reserved = False\<rparr> ?d1
           = (Inr (?t1\<lparr>table.reserved := False\<rparr>),
              ?d1\<lparr>tables := replace_first ?P (?t1\<lparr>table.reserved := False\<rparr>) (tables ?d1)\<rparr>)"
    by (rule toggleTableReservation_found [OF assms f1])
  then have s2: "toggleTableReservation \<lparr>user = Some u\<rparr>
           \<lparr>toggleTableReservation_args.id' = X, toggleTableReservation_args.reserved = False\<rparr> ?d1
           = (Inr ?t2, ?d2)"
    using replace_first_twice [of ?P ?t1 ?t2 "tables d"] idt by simp
  have f2: "table_findUnique (WhereId X) ?d2 = Some ?t2"
    using find_replace_first [OF ft, of ?t2] idt by (simp add: table_findUnique_def)
  show "let first = toggleTableReservation \<lparr>user = Some u\<rparr>
                     \<lparr>toggleTableReservation_args.id' = X,
                       toggleTableReservation_args.reserved = True\<rparr> d;
           second = toggleTableReservation \<lparr>user = Some u\<rparr>
                      \<lparr>toggleTableReservation_args.id' = X,
                        toggleTableReservation_args.reserved = False\<rparr> (snd first)
       in fst first = Inr (t\<lparr>table.reserved := True\<rparr>)
        \<and> fst second = Inr (t\<lparr>table.reserved := False\<rparr>)
        \<and> table_findUnique (WhereId X) (snd second) = Some (t\<lparr>table.reserved := False\<rparr>)
        \<and> snd second =
            d\<lparr>tables := replace_first (matches (WhereId X))
                           (t\<lparr>table.reserved := False\<rparr>) (tables d)\<rparr>"
    unfolding Let_def s1 snd_conv fst_conv s2 using f2 by simp
next
  assume "\<forall>t\<in>set (tables d). table.id' t \<noteq> X"
  then have "find (matches (WhereId X)) (tables d) = None"
    by (simp add: find_none_iff_no_match)
  then show "toggleTableReservation \<lparr>user = Some u\<rparr>
          \<lparr>toggleTableReservation_args.id' = X, toggleTableReservation_args.reserved = r\<rparr> d
          = (Inl (GraphQLError ''Table not found''), d)"
    using assms by (simp add: toggleTableReservation_def table_findUnique_def)
qed

text \<open>
  On the small database: reserving and releasing Table ''t1'' leaves the database as it
  was (the Table was not reserved before), and the id ''t9'' is not found.
\<close>

theorem toggle_reservation_round_trip_witness:
  "role \<lparr>role = Some ADMIN\<rparr> = Some ADMIN
   \<and> table_findUnique (WhereId ''t1'') small_db = Some table_seven
   \<and> toggleTableReservation admin
       \<lparr>toggleTableReservation_args.id' = ''t1'', toggleTableReservation_args.reserved = False\<rparr>
       (snd (toggleTableReservation admin
          \<lparr>toggleTableReservation_args.id' = ''t1'', toggleTableReservation_args.reserved = True\<rparr>
          small_db))
     = (Inr table_seven, small_db)
   \<and> ''t9'' \<notin> set (map table.id' (tables small_db))
   \<and> toggleTableReservation admin
       \<lparr>toggleTableReservation_args.id' = ''t9'', toggleTableReservation_args.reserved = True\<rparr>
       small_db
     = (Inl (GraphQLError ''Table not found''), small_db)"
proof -
  have r: "role \<lparr>role = Some ADMIN\<rparr> = Some ADMIN"
    by simp
  have stored: "table_findUnique (WhereId ''t1'') small_db = Some table_seven"
    by (simp add: table_findUnique_def small_db_def table_seven_def)
  have absent: "\<forall>t\<in>set (tables small_db). table.id' t \<noteq> ''t9''"
    by (simp add: example_defs)
  have same_record: "table_seven\<lparr>table.reserved := False\<rparr> = table_seven"
    by (simp add: table_seven_def)
  have same_db: "small_db\<lparr>tables := replace_first (matches (WhereId ''t1'')) table_seven
      (tables small_db)\<rparr> = small_db"
    by (simp add: small_db_def table_seven_def)
  from stored toggle_reservation_round_trip [OF r, of "''t1''" small_db table_seven]
  have round: "toggleTableReservation admin
       \<lparr>toggleTableReservation_args.id' = ''t1'', toggleTableReservation_args.reserved = False\<rparr>
       (snd (toggleTableReservation admin
          \<lparr>toggleTableReservation_args.id' = ''t1'', toggleTableReservation_args.reserved = True\<rparr>
          small_db))
     = (Inr table_seven, small_db)"
    unfolding admin_def Let_def same_record same_db by (simp add: prod_eq_iff)
  from absent toggle_reservation_round_trip [OF r, of "''t9''" small_db _ True]
  have missing: "toggleTableReservation admin
       \<lparr>toggleTableReservation_args.id' = ''t9'', toggleTableReservation_args.reserved = True\<rparr>
       small_db
     = (Inl (GraphQLError ''Table not found''), small_db)"
    unfolding admin_def by blast
  have unknown: "''t9'' \<notin> set (map table.id' (tables small_db))"
    by (simp add: example_defs)
  from r stored round unknown missing show ?thesis by blast
qed

subsection \<open>addOrderToTable\<close>

lemma order_create_result:
  "order_create newId data d = (Inr ord, d') \<Longrightarrow>
     order.status ord = order_create_input.status data \<and> orders d' = orders d @ [ord]"
  by (auto simp add: order_create_def Let_def)

lemma addOrderToTable_succeeds:
  assumes "role u \<in> {Some ADMIN, Some MANAGER, Some WAITER}"
    and "\<exists>t\<in>set (tables d). table.id' t = addOrderToTable_args.tableId a"
  shows "\<exists>new. addOrderToTable newId \<lparr>user = Some u\<rparr> a d = (Inr new, d\<lparr>orders := orders d @ [new]\<rparr>)
           \<and> order.status new = ''PREPARING''
           \<and> order.orderNumber new = addOrderToTable_args.orderNumber a
           \<and> order.tableId new = addOrderToTable_args.tableId a"
proof -
  from assms(2)
  have "find (matches (WhereId (addOrderToTable_args.tableId a))) (tables d) \<noteq> None"
    by (simp add: find_none_iff_no_match)
  then obtain t where
    "find (matches (WhereId (addOrderToTable_args.tableId a))) (tables d) = Some t"
    by blast
  then show ?thesis
    using assms(1) admin_manager_or_waiter [of u]
    by (simp add: addOrderToTable_def table_findUnique_def order_create_def Let_def)
qed

text \<open>
  Claim C6. Whatever the context, the arguments and the database, an Order that
  addOrderToTable returns has status PREPARING and is the one Order the call has added to
  the stored Orders. And the call does return an Order whenever the caller is an ADMIN, a
  MANAGER or a WAITER and the tableId is the id of a stored Table, for every combination
  of the other arguments.
\<close>

theorem addOrderToTable_status_preparing:
  "(fst (addOrderToTable newId ctx a d) = Inr ord \<longrightarrow>
      order.status ord = ''PREPARING''
      \<and> orders (snd (addOrderToTable newId ctx a d)) = orders d @ [ord])
   \<and> (role u \<in> {Some ADMIN, Some MANAGER, Some WAITER}
        \<and> (\<exists>t\<in>set (tables d). table.id' t = addOrderToTable_args.tableId a) \<longrightarrow>
      (\<exists>new. addOrderToTable newId \<lparr>user = Some u\<rparr> a d =
                (Inr new, d\<lparr>orders := orders d @ [new]\<rparr>)
         \<and> order.status new = ''PREPARING''))"
proof (intro conjI impI)
  assume run: "fst (addOrderToTable newId ctx a d) = Inr ord"
  obtain d' where d': "addOrderToTable newId ctx a d = (Inr ord, d')"
    using run by (cases "addOrderToTable newId ctx a d") simp
  then obtain data where "order_create newId data d = (Inr ord, d')"
    and "order_create_input.status data = ''PREPARING''"
    by (auto simp add: addOrderToTable_def split: option.splits if_splits)
  then have both: "order.status ord = ''PREPARING'' \<and> orders d' = orders d @ [ord]"
    using order_create_result [of newId data d ord d'] by simp
  from both show "order.status ord = ''PREPARING''"
    by simp
  from both d' show "orders (snd (addOrderToTable newId ctx a d)) = orders d @ [ord]"
    by simp
next
  assume "role u \<in> {Some ADMIN, Some MANAGER, Some WAITER}
        \<and> (\<exists>t\<in>set (tables d). table.id' t = addOrderToTable_args.tableId a)"
  then show "\<exists>new. addOrderToTable newId \<lparr>user = Some u\<rparr> a d =
                (Inr new, d\<lparr>orders := orders d @ [new]\<rparr>)
         \<and> order.status new = ''PREPARING''"
    using addOrderToTable_succeeds [of u d a newId] by blast
qed

text \<open>The waiter's order for Table ''t1'' of the small database, evaluated.\<close>

lemma waiter_orders_again:
  "addOrderToTable ''o2'' waiter (order_args ''t1'') small_db =
     (Inr order_a1_again, \<lparr> tables = [table_seven], orders = [order_a1, order_a1_again] \<rparr>)"
  by (simp add: addOrderToTable_def client_defs example_defs order_a1_again_def Let_def)

theorem addOrderToTable_status_preparing_witness:
  "fst (addOrderToTable ''o2'' waiter (order_args ''t1'') small_db) = Inr order_a1_again
   \<and> order.status order_a1_again = ''PREPARING''
   \<and> orders (snd (addOrderToTable ''o2'' waiter (order_args ''t1'') small_db))
       = orders small_db @ [order_a1_again]
   \<and> role \<lparr>role = Some WAITER\<rparr> \<in> {Some ADMIN, Some MANAGER, Some WAITER}
   \<and> (\<exists>t\<in>set (tables small_db). table.id' t = addOrderToTable_args.tableId (order_args ''t1''))
   \<and> (\<exists>new. addOrderToTable ''o2'' waiter (order_args ''t1'') small_db =
              (Inr new, small_db\<lparr>orders := orders small_db @ [new]\<rparr>)
         \<and> order.status new = ''PREPARING'')"
proof -
  have run: "fst (addOrderToTable ''o2'' waiter (order_args ''t1'') small_db) = Inr order_a1_again"
    by (simp add: waiter_orders_again)
  have r: "role \<lparr>role = Some WAITER\<rparr> \<in> {Some ADMIN, Some MANAGER, Some WAITER}"
    by simp
  have stored: "\<exists>t\<in>set (tables small_db). table.id' t = addOrderToTable_args.tableId (order_args ''t1'')"
    by (simp add: example_defs)
  note at_waiter = addOrderToTable_status_preparing [of "''o2''" waiter "order_args ''t1''"
      small_db order_a1_again "\<lparr>role = Some WAITER\<rparr>", folded waiter_def]
  from run r stored at_waiter show ?thesis
    by blast
qed

text \<open>
  Claim C8. addOrderToTable does not check the orderNumber against the stored Orders:
  whenever the caller is an ADMIN, a MANAGER or a WAITER, the tableId is the id of a
  stored Table and a stored Order already has the given orderNumber, the call succeeds;
  it adds one more Order with that orderNumber, so that at least two stored Orders have
  it afterwards. Such a state exists: the small database.
\<close>

theorem addOrderToTable_duplicate_orderNumber:
  assumes "role u \<in> {Some ADMIN, Some MANAGER, Some WAITER}"
    and "\<exists>t\<in>set (tables d). table.id' t = addOrderToTable_args.tableId a"
    and "\<exists>x\<in>set (orders d). order.orderNumber x = addOrderToTable_args.orderNumber a"
  shows "\<exists>new. addOrderToTable newId \<lparr>user = Some u\<rparr> a d = (Inr new, d\<lparr>orders := orders d @ [new]\<rparr>)
           \<and> order.orderNumber new = addOrderToTable_args.orderNumber a
           \<and> 2 \<le> length (filter (\<lambda>x. order.orderNumber x = addOrderToTable_args.orderNumber a)
                    (orders d @ [new]))"
proof -
  from assms(3)
  have "filter (\<lambda>x. order.orderNumber x = addOrderToTable_args.orderNumber a) (orders d) \<noteq> []"
    by (simp add: filter_empty_conv)
  then have one:
    "1 \<le> length (filter (\<lambda>x. order.orderNumber x = addOrderToTable_args.orderNumber a) (orders d))"
    by (simp add: Suc_leI)
  from addOrderToTable_succeeds [OF assms(1) assms(2), of newId]
  obtain new where new:
    "addOrderToTable newId \<lparr>user = Some u\<rparr> a d = (Inr new, d\<lparr>orders := orders d @ [new]\<rparr>)"
    "order.orderNumber new = addOrderToTable_args.orderNumber a"
    by blast
  from one new(2)
  have "2 \<le> length (filter (\<lambda>x. order.orderNumber x = addOrderToTable_args.orderNumber a)
                    (orders d @ [new]))"
    by simp
  with new show ?thesis by blast
qed

theorem addOrderToTable_duplicate_orderNumber_witness:
  "role \<lparr>role = Some WAITER\<rparr> \<in> {Some ADMIN, Some MANAGER, Some WAITER}
   \<and> (\<exists>t\<in>set (tables small_db). table.id' t = addOrderToTable_args.tableId (order_args ''t1''))
   \<and> (\<exists>x\<in>set (orders small_db).
         order.orderNumber x = addOrderToTable_args.orderNumber (order_args ''t1''))
   \<and> (\<exists>new. addOrderToTable ''o2'' waiter (order_args ''t1'') small_db =
              (Inr new, small_db\<lparr>orders := orders small_db @ [new]\<rparr>)
         \<and> order.orderNumber new = ''A-1''
         \<and> 2 \<le> length (filter (\<lambda>x. order.orderNumber x = ''A-1'') (orders small_db @ [new])))"
proof -
  have r: "role \<lparr>role = Some WAITER\<rparr> \<in> {Some ADMIN, Some MANAGER, Some WAITER}"
    by simp
  have stored: "\<exists>t\<in>set (tables small_db). table.id' t = addOrderToTable_args.tableId (order_args ''t1'')"
    by (simp add: example_defs)
  have taken: "\<exists>x\<in>set (orders small_db).
         order.orderNumber x = addOrderToTable_args.orderNumber (order_args ''t1'')"
    by (simp add: example_defs)
  have number: "addOrderToTable_args.orderNumber (order_args ''t1'') = ''A-1''"
    by (simp add: order_args_def)
  note at_waiter = addOrderToTable_duplicate_orderNumber [OF r stored taken, of "''o2''",
      folded waiter_def, unfolded number]
  from r stored taken at_waiter show ?thesis
    by blast
qed

subsection \<open>Two addTable calls at once\<close>

text \<open>The two parts, one after the other with nothing in between, are the resolver.\<close>

lemma addTable_check_then_create:
  "addTable newId ctx args d =
     (case addTable_check ctx args d of
        Some e \<Rightarrow> (Inl e, d)
      | None \<Rightarrow> addTable_create newId args d)"
  by (simp add: addTable_def addTable_check_def addTable_create_def split: option.split)



















end
